theory Spec2Isabelle
  imports Complex_Main
begin

section \<open>JavaScript values\<close>

text \<open>
  A JavaScript number is a double: a finite value (every finite double is a rational, and
  \<open>-0\<close> compares equal to \<open>0\<close>), one of the two infinities (\<open>JSON.parse\<close> yields them on
  overflow, as for \<open>1e999\<close>) or \<open>NaN\<close>. Only the order of numbers matters below, and
  doubling of small integers.
\<close>

datatype jsnum = NaN | NegInf | Fin rat | PosInf

text \<open>
  The values that \<open>JSON.parse\<close> builds, and \<open>undefined\<close> for the properties that are
  missing. A string is the list of its characters (code points below 256); an object is
  the list of its own properties, each key once, looked up by key.
\<close>

datatype jsval =
    JUndefined
  | JNull
  | JBool bool
  | JNum jsnum
  | JStr string
  | JArr "jsval list"
  | JObj "(string \<times> jsval) list"

datatype js_error = SyntaxError | TypeError | RangeError | WriteError | RpcError | Error string

datatype level = LOG | WARN | ERROR

type_synonym console_entry = "level \<times> string"

text \<open>\<open>x < y\<close> on numbers: false as soon as one side is \<open>NaN\<close>.\<close>

fun num_lt :: "jsnum \<Rightarrow> jsnum \<Rightarrow> bool" where
  "num_lt NaN _ = False"
| "num_lt _ NaN = False"
| "num_lt _ NegInf = False"
| "num_lt NegInf _ = True"
| "num_lt PosInf _ = False"
| "num_lt (Fin x) (Fin y) = (x < y)"
| "num_lt (Fin x) PosInf = True"

text \<open>\<open>x > y\<close> and \<open>x <= y\<close> on numbers; \<open>x <= y\<close> is "not \<open>y < x\<close>, and no \<open>NaN\<close>".\<close>

definition num_gt :: "jsnum \<Rightarrow> jsnum \<Rightarrow> bool" where
  "num_gt x y = num_lt y x"

definition num_le :: "jsnum \<Rightarrow> jsnum \<Rightarrow> bool" where
  "num_le x y = (x \<noteq> NaN \<and> y \<noteq> NaN \<and> \<not> num_lt y x)"

text \<open>
  \<open>ToNumber\<close> on the primitives that need no parsing. Strings, arrays and objects go
  through \<open>ToPrimitive\<close> and the parsing and printing of number literals, which are not
  modelled: they are left to the parameters of \<open>js_gt\<close> and \<open>js_to_number\<close>.
\<close>

fun to_number_prim :: "jsval \<Rightarrow> jsnum option" where
  "to_number_prim JUndefined = Some NaN"
| "to_number_prim JNull = Some (Fin 0)"
| "to_number_prim (JBool b) = Some (Fin (if b then 1 else 0))"
| "to_number_prim (JNum n) = Some n"
| "to_number_prim (JStr s) = None"
| "to_number_prim (JArr xs) = None"
| "to_number_prim (JObj kvs) = None"

type_synonym relational = "jsval \<Rightarrow> jsval \<Rightarrow> js_error + bool"

text \<open>
  \<open>a > b\<close>. When both operands are \<open>undefined\<close>, \<open>null\<close>, booleans or numbers the result
  is the comparison of their numeric values. Otherwise the language's coercion decides (it
  may throw a \<open>TypeError\<close>); it is the parameter \<open>coerce\<close>, about which nothing is assumed.
\<close>

definition js_gt :: "relational \<Rightarrow> jsval \<Rightarrow> jsval \<Rightarrow> js_error + bool" where
  "js_gt coerce a b =
     (case (to_number_prim a, to_number_prim b) of
        (Some x, Some y) \<Rightarrow> Inr (num_gt x y)
      | _ \<Rightarrow> coerce a b)"

text \<open>
  \<open>ToNumber (v)\<close>, as \<open>isNaN (v)\<close> and \<open>v <= 0\<close> compute it: the numeric value of
  \<open>undefined\<close>, \<open>null\<close>, a boolean or a number; for a string, an array or an object the
  language's conversion decides (it may throw a \<open>TypeError\<close>), which is the parameter
  \<open>convert\<close>, about which nothing is assumed.
\<close>

type_synonym conversion = "jsval \<Rightarrow> js_error + jsnum"

definition js_to_number :: "conversion \<Rightarrow> jsval \<Rightarrow> js_error + jsnum" where
  "js_to_number convert v =
     (case to_number_prim v of
        Some n \<Rightarrow> Inr n
      | None \<Rightarrow> convert v)"

text \<open>
  \<open>v.k\<close>, and the destructuring \<open>const {k} = v\<close>, for a property name \<open>k\<close> that no built-in
  prototype defines (all the names read by the program are such): a \<open>TypeError\<close> on
  \<open>undefined\<close> and \<open>null\<close>, the own property of an object, \<open>undefined\<close> otherwise.
\<close>

fun get_prop :: "jsval \<Rightarrow> string \<Rightarrow> js_error + jsval" where
  "get_prop JUndefined k = Inl TypeError"
| "get_prop JNull k = Inl TypeError"
| "get_prop (JObj kvs) k = (case map_of kvs k of None \<Rightarrow> Inr JUndefined | Some v \<Rightarrow> Inr v)"
| "get_prop _ k = Inr JUndefined"

text \<open>
  Whether \<open>`${v}`\<close> throws. \<open>ToString\<close> of an object calls its \<open>toString\<close>, then its
  \<open>valueOf\<close>; a parsed object that has an own property \<open>toString\<close> (never a function)
  falls through both and a \<open>TypeError\<close> is thrown. An array joins the strings of its
  elements, \<open>null\<close> and \<open>undefined\<close> printing as the empty string.
\<close>

fun to_string_throws :: "jsval \<Rightarrow> bool" where
  "to_string_throws (JObj kvs) = (''toString'' \<in> set (map fst kvs))"
| "to_string_throws (JArr xs) = list_ex to_string_throws xs"
| "to_string_throws _ = False"

text \<open>
  The arguments that \<open>f(...v)\<close> spreads: the elements of an array, the characters of a
  string, and a \<open>TypeError\<close> for every other value (none is iterable). The engine
  accepts only so many arguments in one call: beyond \<open>max_args\<close>, a number that depends
  on the engine and is a parameter here, the call throws a \<open>RangeError\<close> and is not made.
\<close>

fun spread :: "nat \<Rightarrow> jsval \<Rightarrow> js_error + jsval list" where
  "spread max_args (JArr xs) = (if max_args < length xs then Inl RangeError else Inr xs)"
| "spread max_args (JStr s) =
     (if max_args < length s then Inl RangeError else Inr (map (\<lambda>c. JStr [c]) s))"
| "spread max_args _ = Inl TypeError"

section \<open>Connections and the wallet state\<close>

text \<open>
  A peer connection: the values written to it (\<open>write (JSON.stringify v)\<close> records \<open>v\<close>),
  whether \<open>destroy\<close> was called, and whether its \<open>write\<close> throws.
\<close>

record conn =
  written :: "jsval list"
  destroyed :: bool
  write_throws :: bool

definition conn_write :: "conn \<Rightarrow> jsval \<Rightarrow> js_error + conn" where
  "conn_write c v =
     (if write_throws c then Inl WriteError else Inr (c\<lparr>written := written c @ [v]\<rparr>))"

definition conn_destroy :: "conn \<Rightarrow> conn" where
  "conn_destroy c = c\<lparr>destroyed := True\<rparr>"

text \<open>The module's variables, shared by all sessions, and the console.\<close>

record world =
  WALLET_NAME :: string
  currentBalance :: jsval
  transactionHistory :: "jsval list"
  console :: "console_entry list"

text \<open>What \<open>handlePeerConnection\<close> holds for one peer.\<close>

record session =
  malformedMessagesCount :: nat
  connection :: conn

definition console_log :: "string \<Rightarrow> world \<Rightarrow> world" where
  "console_log s w = w\<lparr>console := console w @ [(LOG, s)]\<rparr>"

definition console_warn :: "string \<Rightarrow> world \<Rightarrow> world" where
  "console_warn s w = w\<lparr>console := console w @ [(WARN, s)]\<rparr>"

definition console_error :: "string \<Rightarrow> world \<Rightarrow> world" where
  "console_error s w = w\<lparr>console := console w @ [(ERROR, s)]\<rparr>"

section \<open>The peer message handler\<close>

definition walletState :: "world \<Rightarrow> jsval" where
  "walletState w =
     JObj [(''type'', JStr ''state''),
           (''data'', JObj [(''walletName'', JStr (WALLET_NAME w)),
                            (''balance'', currentBalance w),
                            (''transactions'', JArr (transactionHistory w))])]"

definition broadcastState :: "world \<Rightarrow> conn \<Rightarrow> js_error + conn" where
  "broadcastState w c = conn_write c (walletState w)"

text \<open>
  The three branches of the handler. Each returns the exception it throws, if any, with
  the state as it is at that point: what was assigned before a throw stays assigned.
\<close>

definition on_transaction :: "jsval \<Rightarrow> world \<Rightarrow> js_error option \<times> world" where
  "on_transaction message w =
     (case get_prop message ''data'' of
        Inl e \<Rightarrow> (Some e, w)
      | Inr d \<Rightarrow>
          (case (get_prop d ''sender'', get_prop d ''recipient'',
                 get_prop d ''amount'', get_prop d ''txId'') of
             (Inr sender, Inr recipient, Inr amount, Inr txId) \<Rightarrow>
               if to_string_throws txId \<or> to_string_throws sender
                  \<or> to_string_throws recipient \<or> to_string_throws amount
               then (Some TypeError, w)
               else
                 (let w1 = console_log ''Received transaction'' w
                  in (None, w1\<lparr>transactionHistory := transactionHistory w1 @ [d]\<rparr>))
           | _ \<Rightarrow> (Some TypeError, w)))"

definition on_state_request :: "world \<Rightarrow> conn \<Rightarrow> js_error option \<times> world \<times> conn" where
  "on_state_request w c =
     (let w1 = console_log ''Received state request. Sending state to peer.'' w
      in (case broadcastState w1 c of
            Inl e \<Rightarrow> (Some e, w1, c)
          | Inr c' \<Rightarrow> (None, w1, c')))"

definition on_state ::
  "relational \<Rightarrow> nat \<Rightarrow> jsval \<Rightarrow> world \<Rightarrow> js_error option \<times> world" where
  "on_state coerce max_args message w =
     (case get_prop message ''data'' of
        Inl e \<Rightarrow> (Some e, w)
      | Inr d \<Rightarrow>
          (let w1 = console_log ''Received wallet state from peer:'' w
           in (case get_prop d ''balance'' of
                 Inl e \<Rightarrow> (Some e, w1)
               | Inr b \<Rightarrow>
                   (case js_gt coerce b (currentBalance w1) of
                      Inl e \<Rightarrow> (Some e, w1)
                    | Inr False \<Rightarrow> (None, w1)
                    | Inr True \<Rightarrow>
                        (let w2 = console_log ''Updating local state with the received state...'' w1;
                             w3 = w2\<lparr>currentBalance := b\<rparr>
                         in (case get_prop d ''transactions'' of
                               Inl e \<Rightarrow> (Some e, w3)
                             | Inr ts \<Rightarrow>
                                 (case spread max_args ts of
                                    Inl e \<Rightarrow> (Some e, w3)
                                  | Inr xs \<Rightarrow>
                                      (None, w3\<lparr>transactionHistory :=
                                                   transactionHistory w3 @ xs\<rparr>))))))))"

text \<open>
  The body of the \<open>try\<close>. A chunk is given by what \<open>JSON.parse (data.toString ())\<close> makes
  of it: \<open>None\<close> when it throws a \<open>SyntaxError\<close>, the parsed value otherwise.
\<close>

definition try_block ::
  "relational \<Rightarrow> nat \<Rightarrow> world \<Rightarrow> conn \<Rightarrow> jsval option
     \<Rightarrow> js_error option \<times> world \<times> conn" where
  "try_block coerce max_args w c data =
     (case data of
        None \<Rightarrow> (Some SyntaxError, w, c)
      | Some message \<Rightarrow>
          (let w1 = console_log ''Received message from peer:'' w
           in (case get_prop message ''type'' of
                 Inl e \<Rightarrow> (Some e, w1, c)
               | Inr ty \<Rightarrow>
                   (if ty = JStr ''transaction'' then
                      (case on_transaction message w1 of (r, w2) \<Rightarrow> (r, w2, c))
                    else if ty = JStr ''state-request'' then on_state_request w1 c
                    else if ty = JStr ''state'' then
                      (case on_state coerce max_args message w1 of (r, w2) \<Rightarrow> (r, w2, c))
                    else (None, console_warn ''Unknown message type received:'' w1, c)))))"

text \<open>
  The \<open>catch\<close> of the listener: the counter, the log line and, above 3, the warning and
  \<open>destroy\<close>. None of its statements throws; the first component of the result is the
  exception that leaves the block, and there is none.
\<close>

definition catch_block ::
  "js_error \<Rightarrow> world \<Rightarrow> session \<Rightarrow> conn \<Rightarrow> js_error option \<times> world \<times> session" where
  "catch_block error w s c =
     (let n = malformedMessagesCount s + 1;
          w1 = console_error ''Error processing peer message:'' w
      in (if n > 3
          then (None, console_warn ''Too many malformed messages. Closing connection...'' w1,
                \<lparr>malformedMessagesCount = n, connection = conn_destroy c\<rparr>)
          else (None, w1, \<lparr>malformedMessagesCount = n, connection = c\<rparr>)))"

text \<open>
  The \<open>data\<close> listener, the \<open>try\<close> and its \<open>catch\<close>: the exception that leaves the
  listener, if any, and the state it leaves. The listener tests nothing before the \<open>try\<close>:
  it handles every chunk it is called with, whatever the state of the connection.
\<close>

definition data_listener ::
  "relational \<Rightarrow> nat \<Rightarrow> world \<times> session \<Rightarrow> jsval option
     \<Rightarrow> js_error option \<times> world \<times> session" where
  "data_listener coerce max_args ws data =
     (case ws of (w, s) \<Rightarrow>
        (case try_block coerce max_args w (connection s) data of
           (None, w', c') \<Rightarrow> (None, w', s\<lparr>connection := c'\<rparr>)
         | (Some error, w', c') \<Rightarrow> catch_block error w' s c'))"

text \<open>The state after the listener has handled a chunk.\<close>

definition on_data ::
  "relational \<Rightarrow> nat \<Rightarrow> world \<times> session \<Rightarrow> jsval option \<Rightarrow> world \<times> session" where
  "on_data coerce max_args ws data = snd (data_listener coerce max_args ws data)"

text \<open>The counter of a session after a chunk was handled.\<close>

abbreviation count_after ::
  "relational \<Rightarrow> nat \<Rightarrow> world \<Rightarrow> session \<Rightarrow> jsval option \<Rightarrow> nat" where
  "count_after coerce max_args w s data \<equiv>
     malformedMessagesCount (snd (on_data coerce max_args (w, s) data))"

text \<open>The balance that a chunk carries when it parses to a \<open>state\<close> message with a number for balance.\<close>

definition state_balance :: "jsval option \<Rightarrow> jsnum option" where
  "state_balance data =
     (case data of
        None \<Rightarrow> None
      | Some message \<Rightarrow>
          (if get_prop message ''type'' = Inr (JStr ''state'') then
             (case get_prop message ''data'' of
                Inl e \<Rightarrow> None
              | Inr d \<Rightarrow>
                  (case get_prop d ''balance'' of
                     Inr (JNum b) \<Rightarrow> Some b
                   | _ \<Rightarrow> None))
           else None))"

section \<open>Retry with exponential backoff\<close>

text \<open>
  The function retried is given by the outcome of each of its calls: \<open>fn k\<close> is what the
  \<open>k\<close>-th call does, \<open>Inr\<close> a value or \<open>Inl\<close> a thrown error. The state counts the calls and
  keeps the attempts warned about and the delays waited, in order. The numbers are small
  integers, exact as doubles.
\<close>

record retry_state =
  calls :: nat
  warned :: "nat list"
  slept :: "nat list"

datatype ('e, 'a) completion = Returned 'a | Threw 'e | ReturnedUndefined

function retry_loop ::
  "(nat \<Rightarrow> 'e + 'a) \<Rightarrow> nat \<Rightarrow> nat \<Rightarrow> nat \<Rightarrow> retry_state \<Rightarrow> ('e, 'a) completion \<times> retry_state" where
  "retry_loop fn retries attempt delay st =
     (if attempt \<le> retries then
        (case fn (calls st + 1) of
           Inr v \<Rightarrow> (Returned v, st\<lparr>calls := calls st + 1\<rparr>)
         | Inl error \<Rightarrow>
             (if attempt = retries then (Threw error, st\<lparr>calls := calls st + 1\<rparr>)
              else retry_loop fn retries (attempt + 1) (delay * 2)
                     (st\<lparr>calls := calls st + 1,
                         warned := warned st @ [attempt],
                         slept := slept st @ [delay]\<rparr>)))
      else (ReturnedUndefined, st))"
  by pat_completeness auto
termination
  by (relation "measure (\<lambda>(fn, retries, attempt, delay, st). retries + 1 - attempt)") auto

definition MAX_RETRIES :: nat where
  "MAX_RETRIES = 5"

definition retryWithBackoff ::
  "(nat \<Rightarrow> 'e + 'a) \<Rightarrow> nat \<Rightarrow> nat \<Rightarrow> ('e, 'a) completion \<times> retry_state" where
  "retryWithBackoff fn retries delay =
     retry_loop fn retries 1 delay \<lparr>calls = 0, warned = [], slept = []\<rparr>"

text \<open>The call with the default parameters, \<open>retryWithBackoff (fn)\<close>.\<close>

definition retryWithBackoff_default :: "(nat \<Rightarrow> 'e + 'a) \<Rightarrow> ('e, 'a) completion \<times> retry_state" where
  "retryWithBackoff_default fn = retryWithBackoff fn MAX_RETRIES 500"

section \<open>The wallet operations\<close>

text \<open>
  \<open>String.prototype.trim\<close> strips white space and line terminators from both ends; among
  the characters below 256 these are tab, line feed, vertical tab, form feed, carriage
  return, space and the no-break space.
\<close>

definition is_white_space :: "char \<Rightarrow> bool" where
  "is_white_space c = (of_char c \<in> {9, 10, 11, 12, 13, 32, 160 :: nat})"

definition trim :: "string \<Rightarrow> string" where
  "trim s = rev (dropWhile is_white_space (rev (dropWhile is_white_space s)))"

definition validateWalletName :: "jsval \<Rightarrow> js_error + unit" where
  "validateWalletName walletName =
     (if (case walletName of JStr s \<Rightarrow> trim s = [] | _ \<Rightarrow> True)
      then Inl (Error ''Invalid wallet name. It must be a non-empty string.'')
      else Inr ())"

text \<open>
  \<open>isNaN (amount) || amount <= 0\<close>: both operands convert the amount to a number, the
  same one; an exception of the conversion leaves the function.
\<close>

definition validateAmount :: "conversion \<Rightarrow> jsval \<Rightarrow> js_error + unit" where
  "validateAmount convert amount =
     (case js_to_number convert amount of
        Inl e \<Rightarrow> Inl e
      | Inr n \<Rightarrow>
          (if n = NaN \<or> num_le n (Fin 0)
           then Inl (Error ''Invalid amount. It must be a positive number.'')
           else Inr ()))"

text \<open>
  The RPC client: the wallet it is set to, and the commands issued, in order. What the
  node answers to a command is the parameter \<open>node\<close>.
\<close>

record rpc_client =
  wallet :: jsval
  issued :: "(string \<times> jsval list) list"

type_synonym node = "string \<Rightarrow> jsval list \<Rightarrow> js_error + jsval"

definition client_command ::
  "node \<Rightarrow> rpc_client \<Rightarrow> string \<Rightarrow> jsval list \<Rightarrow> (js_error + jsval) \<times> rpc_client" where
  "client_command node cl name args = (node name args, cl\<lparr>issued := issued cl @ [(name, args)]\<rparr>)"

text \<open>
  The \<open>try\<close> of \<open>sendBitcoin\<close>, then the function with its \<open>catch\<close>, which logs and throws
  the error again; the template of the log line throws itself when the wallet name has
  no string.
\<close>

definition sendBitcoin_try ::
  "conversion \<Rightarrow> node \<Rightarrow> console_entry list \<times> rpc_client \<Rightarrow> jsval \<Rightarrow> jsval \<Rightarrow> jsval
     \<Rightarrow> (js_error + jsval) \<times> console_entry list \<times> rpc_client" where
  "sendBitcoin_try convert node st walletName recipientAddress amount =
     (case st of (con, cl) \<Rightarrow>
        (case validateWalletName walletName of
           Inl e \<Rightarrow> (Inl e, con, cl)
         | Inr _ \<Rightarrow>
             (case validateAmount convert amount of
                Inl e \<Rightarrow> (Inl e, con, cl)
              | Inr _ \<Rightarrow>
                  (if to_string_throws amount \<or> to_string_throws walletName
                      \<or> to_string_throws recipientAddress
                   then (Inl TypeError, con, cl)
                   else
                     (case client_command node (cl\<lparr>wallet := walletName\<rparr>) ''sendtoaddress''
                             [recipientAddress, amount] of
                        (Inl e, cl') \<Rightarrow> (Inl e, con @ [(LOG, ''Sending'')], cl')
                      | (Inr txId, cl') \<Rightarrow>
                          (if to_string_throws txId
                           then (Inl TypeError, con @ [(LOG, ''Sending'')], cl')
                           else (Inr txId,
                                 con @ [(LOG, ''Sending''),
                                        (LOG, ''Transaction sent successfully. TXID:'')],
                                 cl')))))))"

definition sendBitcoin ::
  "conversion \<Rightarrow> node \<Rightarrow> console_entry list \<times> rpc_client \<Rightarrow> jsval \<Rightarrow> jsval \<Rightarrow> jsval
     \<Rightarrow> (js_error + jsval) \<times> console_entry list \<times> rpc_client" where
  "sendBitcoin convert node st walletName recipientAddress amount =
     (case sendBitcoin_try convert node st walletName recipientAddress amount of
        (Inr txId, con, cl) \<Rightarrow> (Inr txId, con, cl)
      | (Inl error, con, cl) \<Rightarrow>
          (if to_string_throws walletName then (Inl TypeError, con, cl)
           else (Inl error, con @ [(ERROR, ''Error sending BTC from wallet'')], cl)))"

definition checkBalance ::
  "node \<Rightarrow> console_entry list \<times> rpc_client \<Rightarrow> jsval
     \<Rightarrow> (js_error + jsval) \<times> console_entry list \<times> rpc_client" where
  "checkBalance node st walletName =
     (case st of (con, cl) \<Rightarrow>
        (case (case validateWalletName walletName of
                 Inl e \<Rightarrow> (Inl e, con, cl)
               | Inr _ \<Rightarrow>
                   (if to_string_throws walletName then (Inl TypeError, con, cl)
                    else
                      (case client_command node (cl\<lparr>wallet := walletName\<rparr>) ''getbalance'' [] of
                         (Inl e, cl') \<Rightarrow> (Inl e, con @ [(LOG, ''Ensuring wallet is loaded...'')], cl')
                       | (Inr balance, cl') \<Rightarrow>
                           (if to_string_throws balance
                            then (Inl TypeError, con @ [(LOG, ''Ensuring wallet is loaded...'')], cl')
                            else (Inr balance,
                                  con @ [(LOG, ''Ensuring wallet is loaded...''),
                                         (LOG, ''Wallet Balance'')],
                                  cl'))))) of
           (Inr balance, con', cl') \<Rightarrow> (Inr balance, con', cl')
         | (Inl error, con', cl') \<Rightarrow>
             (if to_string_throws walletName then (Inl TypeError, con', cl')
              else (Inl error, con' @ [(ERROR, ''Error fetching balance for wallet'')], cl'))))"

section \<open>Propagating a transaction to the peers\<close>

text \<open>
  \<open>swarm.connections.forEach ((conn) => conn.write (...))\<close>: the connections in order; an
  exception thrown by a \<open>write\<close> leaves \<open>forEach\<close> at once. The result is the exception,
  if any, and the connections as they are then.
\<close>

fun forEach_write :: "conn list \<Rightarrow> jsval \<Rightarrow> js_error option \<times> conn list" where
  "forEach_write [] v = (None, [])"
| "forEach_write (c # cs) v =
     (case conn_write c v of
        Inl e \<Rightarrow> (Some e, c # cs)
      | Inr c' \<Rightarrow> (case forEach_write cs v of (r, cs') \<Rightarrow> (r, c' # cs')))"

definition transaction_message :: "world \<Rightarrow> jsval \<Rightarrow> jsnum \<Rightarrow> jsval \<Rightarrow> jsval" where
  "transaction_message w recipientAddress amount txId =
     JObj [(''type'', JStr ''transaction''),
           (''data'', JObj [(''sender'', JStr (WALLET_NAME w)),
                            (''recipient'', recipientAddress),
                            (''amount'', JNum amount),
                            (''txId'', txId)])]"

text \<open>
  The end of the main flow, from the construction of the \<open>transaction\<close> message to the end
  of the \<open>try\<close>, with the \<open>catch\<close> of the flow: the broadcast, then the balance is read
  again. An exception anywhere is logged by the \<open>catch\<close>, twice (message and stack).
\<close>

definition propagate_transaction ::
  "node \<Rightarrow> world \<Rightarrow> rpc_client \<Rightarrow> conn list \<Rightarrow> jsval \<Rightarrow> jsnum \<Rightarrow> jsval
     \<Rightarrow> world \<times> rpc_client \<times> conn list" where
  "propagate_transaction node w cl conns recipientAddress amount txId =
     (let w1 = console_log ''Broadcasting transaction to peers:'' w
      in (case forEach_write conns (transaction_message w recipientAddress amount txId) of
            (Some error, conns') \<Rightarrow>
              (console_error ''error.stack'' (console_error ''Error in main flow:'' w1), cl, conns')
          | (None, conns') \<Rightarrow>
              (let w2 = console_log ''===== Checking Updated Balance ====='' w1
               in (case checkBalance node (console w2, cl) (JStr (WALLET_NAME w2)) of
                     (Inl error, con, cl') \<Rightarrow>
                       (console_error ''error.stack''
                          (console_error ''Error in main flow:'' (w2\<lparr>console := con\<rparr>)),
                        cl', conns')
                   | (Inr balance, con, cl') \<Rightarrow>
                       (console_log ''Updated Balance:''
                          (w2\<lparr>console := con, currentBalance := balance\<rparr>),
                        cl', conns')))))"

section \<open>Example values\<close>

text \<open>A fresh wallet state and session, and messages built as the wire protocol shapes them.\<close>

definition ex_world :: world where
  "ex_world = \<lparr>WALLET_NAME = ''mywallet'', currentBalance = JNum (Fin 0),
                transactionHistory = [], console = []\<rparr>"

definition ex_conn :: conn where
  "ex_conn = \<lparr>written = [], destroyed = False, write_throws = False\<rparr>"

definition ex_session :: session where
  "ex_session = \<lparr>malformedMessagesCount = 0, connection = ex_conn\<rparr>"

definition ex_record :: "string \<Rightarrow> jsval" where
  "ex_record txId =
     JObj [(''sender'', JStr ''alice''), (''recipient'', JStr ''bcrt1qexample''),
           (''amount'', JNum (Fin (1 / 10))), (''txId'', JStr txId)]"

definition ex_state :: "jsnum \<Rightarrow> jsval \<Rightarrow> jsval" where
  "ex_state b ts =
     JObj [(''type'', JStr ''state''),
           (''data'', JObj [(''walletName'', JStr ''peer''), (''balance'', JNum b),
                            (''transactions'', ts)])]"

definition ex_transaction :: "jsval \<Rightarrow> jsval" where
  "ex_transaction d = JObj [(''type'', JStr ''transaction''), (''data'', d)]"

definition ex_client :: rpc_client where
  "ex_client = \<lparr>wallet = JUndefined, issued = []\<rparr>"

definition ex_node :: node where
  "ex_node name args = (if name = ''getbalance'' then Inr (JNum (Fin 50)) else Inr (JStr ''txid1''))"

section \<open>Properties of the message handler\<close>

lemmas handler_defs =
  on_data_def data_listener_def catch_block_def try_block_def on_state_def on_transaction_def on_state_request_def
  broadcastState_def conn_write_def conn_destroy_def js_gt_def
  console_log_def console_warn_def console_error_def Let_def

lemmas example_defs =
  ex_world_def ex_conn_def ex_session_def ex_record_def ex_state_def ex_transaction_def
  ex_client_def ex_node_def




text \<open>
  C6. A \<open>transaction\<close> message whose payload has the four fields printable (every
  payload of strings and numbers is such): the payload is appended, alone, at the end of
  the history, whatever the balance and whatever the history already holds; the balance,
  the wallet name and the session are unchanged.
\<close>

theorem transaction_message_appends:
  assumes "get_prop message ''type'' = Inr (JStr ''transaction'')"
    and "get_prop message ''data'' = Inr d"
    and "get_prop d ''sender'' = Inr sender" and "\<not> to_string_throws sender"
    and "get_prop d ''recipient'' = Inr recipient" and "\<not> to_string_throws recipient"
    and "get_prop d ''amount'' = Inr amount" and "\<not> to_string_throws amount"
    and "get_prop d ''txId'' = Inr txId" and "\<not> to_string_throws txId"
  shows "transactionHistory (fst (on_data coerce max_args (w, s) (Some message))) =
           transactionHistory w @ [d] \<and>
         currentBalance (fst (on_data coerce max_args (w, s) (Some message))) = currentBalance w \<and>
         WALLET_NAME (fst (on_data coerce max_args (w, s) (Some message))) = WALLET_NAME w \<and>
         snd (on_data coerce max_args (w, s) (Some message)) = s"
  using assms by (simp add: handler_defs)

theorem transaction_message_appends_witness:
  "\<forall>coerce max_args.
     transactionHistory (fst (on_data coerce max_args
         (ex_world\<lparr>currentBalance := JNum (Fin (1 / 2)), transactionHistory := [ex_record ''c'']\<rparr>,
          ex_session)
         (Some (ex_transaction (ex_record ''c'')))))
       = [ex_record ''c'', ex_record ''c''] \<and>
     currentBalance (fst (on_data coerce max_args
         (ex_world\<lparr>currentBalance := JNum (Fin (1 / 2)), transactionHistory := [ex_record ''c'']\<rparr>,
          ex_session)
         (Some (ex_transaction (ex_record ''c'')))))
       = JNum (Fin (1 / 2)) \<and>
     snd (on_data coerce max_args
         (ex_world\<lparr>currentBalance := JNum (Fin (1 / 2)), transactionHistory := [ex_record ''c'']\<rparr>,
          ex_session)
         (Some (ex_transaction (ex_record ''c''))))
       = ex_session"
proof (intro allI)
  fix coerce max_args
  let ?w = "ex_world\<lparr>currentBalance := JNum (Fin (1 / 2)),
                      transactionHistory := [ex_record ''c'']\<rparr>"
  note appended = transaction_message_appends
    [of "ex_transaction (ex_record ''c'')" "ex_record ''c''" "JStr ''alice''"
        "JStr ''bcrt1qexample''" "JNum (Fin (1 / 10))" "JStr ''c''" coerce max_args ?w ex_session]
  show "transactionHistory (fst (on_data coerce max_args (?w, ex_session)
            (Some (ex_transaction (ex_record ''c'')))))
          = [ex_record ''c'', ex_record ''c''] \<and>
        currentBalance (fst (on_data coerce max_args (?w, ex_session)
            (Some (ex_transaction (ex_record ''c'')))))
          = JNum (Fin (1 / 2)) \<and>
        snd (on_data coerce max_args (?w, ex_session) (Some (ex_transaction (ex_record ''c''))))
          = ex_session"
    using appended by (simp add: ex_transaction_def ex_record_def ex_world_def)
qed

text \<open>
  C10, as amended. A \<open>state\<close> message with a balance strictly greater than the local one
  and a \<open>transactions\<close> payload that is absent or is neither an array nor a string: the
  balance is assigned before the append throws, so the higher balance stays, the history
  is unchanged, and the message is counted as malformed.
\<close>

theorem state_merge_not_atomic:
  assumes "get_prop message ''type'' = Inr (JStr ''state'')"
    and "get_prop message ''data'' = Inr d"
    and "get_prop d ''balance'' = Inr (JNum b)"
    and "currentBalance w = JNum c"
    and "num_gt b c"
    and "get_prop d ''transactions'' = Inr ts"
    and "\<forall>xs. ts \<noteq> JArr xs" and "\<forall>cs. ts \<noteq> JStr cs"
  shows "currentBalance (fst (on_data coerce max_args (w, s) (Some message))) = JNum b \<and>
         transactionHistory (fst (on_data coerce max_args (w, s) (Some message))) =
           transactionHistory w \<and>
         malformedMessagesCount (snd (on_data coerce max_args (w, s) (Some message))) =
           malformedMessagesCount s + 1"
  using assms by (cases ts) (simp_all add: handler_defs)

theorem state_merge_not_atomic_witness:
  "\<forall>coerce max_args.
     currentBalance (fst (on_data coerce max_args (ex_world, ex_session)
         (Some (ex_state (Fin 5) JUndefined)))) = JNum (Fin 5) \<and>
     transactionHistory (fst (on_data coerce max_args (ex_world, ex_session)
         (Some (ex_state (Fin 5) JUndefined)))) = [] \<and>
     malformedMessagesCount (snd (on_data coerce max_args (ex_world, ex_session)
         (Some (ex_state (Fin 5) JUndefined)))) = 1"
proof (intro allI)
  fix coerce max_args
  have up: "num_gt (Fin 5) (Fin 0)"
    by (simp add: num_gt_def)
  note torn = state_merge_not_atomic
    [of "ex_state (Fin 5) JUndefined"
        "JObj [(''walletName'', JStr ''peer''), (''balance'', JNum (Fin 5)),
               (''transactions'', JUndefined)]"
        "Fin 5" ex_world "Fin 0" JUndefined coerce max_args ex_session]
  show "currentBalance (fst (on_data coerce max_args (ex_world, ex_session)
            (Some (ex_state (Fin 5) JUndefined)))) = JNum (Fin 5) \<and>
        transactionHistory (fst (on_data coerce max_args (ex_world, ex_session)
            (Some (ex_state (Fin 5) JUndefined)))) = [] \<and>
        malformedMessagesCount (snd (on_data coerce max_args (ex_world, ex_session)
            (Some (ex_state (Fin 5) JUndefined)))) = 1"
    using torn up by (simp add: ex_state_def ex_world_def ex_session_def)
qed

text \<open>
  The claim as first stated fails on a payload that is a string: a string is not an array,
  yet the spread iterates its characters, nothing is thrown, the characters are appended
  and the message is not counted.
\<close>

theorem state_merge_string_payload_counterexample:
  "\<forall>coerce k.
     currentBalance (fst (on_data coerce (k + 2) (ex_world, ex_session)
         (Some (ex_state (Fin 5) (JStr ''ab''))))) = JNum (Fin 5) \<and>
     transactionHistory (fst (on_data coerce (k + 2) (ex_world, ex_session)
         (Some (ex_state (Fin 5) (JStr ''ab''))))) = [JStr ''a'', JStr ''b''] \<and>
     transactionHistory (fst (on_data coerce (k + 2) (ex_world, ex_session)
         (Some (ex_state (Fin 5) (JStr ''ab''))))) \<noteq> transactionHistory ex_world \<and>
     malformedMessagesCount (snd (on_data coerce (k + 2) (ex_world, ex_session)
         (Some (ex_state (Fin 5) (JStr ''ab''))))) = 0"
  by (simp add: handler_defs example_defs num_gt_def)

subsection \<open>Which chunks are counted as malformed\<close>


lemma unparseable_counted:
  "count_after coerce max_args w s None = malformedMessagesCount s + 1"
  by (simp add: handler_defs)

lemma unparseable_view:
  "currentBalance (fst (on_data coerce max_args (w, s) None)) = currentBalance w \<and>
   transactionHistory (fst (on_data coerce max_args (w, s) None)) = transactionHistory w"
  by (simp add: handler_defs)


lemma unknown_kind_accepted:
  assumes "get_prop message ''type'' = Inr ty"
    and "ty \<noteq> JStr ''transaction''" and "ty \<noteq> JStr ''state-request''" and "ty \<noteq> JStr ''state''"
  shows "on_data coerce max_args (w, s) (Some message) =
           (console_warn ''Unknown message type received:''
              (console_log ''Received message from peer:'' w), s)"
  using assms by (simp add: handler_defs)










text \<open>
  C7, as amended. A chunk that does not parse is an error: it is counted as malformed and
  the balance and the history are unchanged. A parsed value that is not \<open>null\<close> and whose
  \<open>type\<close> is missing, or is none of the three kinds, is accepted and not acted upon: the
  warning for an unknown type is logged, the balance, the history and the session (its
  counter and its connection) are unchanged.
\<close>

theorem unknown_or_missing_kind_is_no_error:
  "(count_after coerce max_args w s None = malformedMessagesCount s + 1 \<and>
    currentBalance (fst (on_data coerce max_args (w, s) None)) = currentBalance w \<and>
    transactionHistory (fst (on_data coerce max_args (w, s) None)) = transactionHistory w) \<and>
   (get_prop message ''type'' = Inr ty \<and> ty \<noteq> JStr ''transaction'' \<and>
    ty \<noteq> JStr ''state-request'' \<and> ty \<noteq> JStr ''state'' \<longrightarrow>
      snd (on_data coerce max_args (w, s) (Some message)) = s \<and>
      currentBalance (fst (on_data coerce max_args (w, s) (Some message))) = currentBalance w \<and>
      transactionHistory (fst (on_data coerce max_args (w, s) (Some message))) = transactionHistory w \<and>
      console (fst (on_data coerce max_args (w, s) (Some message))) =
        console w @ [(LOG, ''Received message from peer:''),
                     (WARN, ''Unknown message type received:'')])"
proof (intro conjI impI)
  show "count_after coerce max_args w s None = malformedMessagesCount s + 1"
    by (rule unparseable_counted)
  show "currentBalance (fst (on_data coerce max_args (w, s) None)) = currentBalance w"
    by (simp add: unparseable_view)
  show "transactionHistory (fst (on_data coerce max_args (w, s) None)) = transactionHistory w"
    by (simp add: unparseable_view)
next
  assume "get_prop message ''type'' = Inr ty \<and> ty \<noteq> JStr ''transaction'' \<and>
    ty \<noteq> JStr ''state-request'' \<and> ty \<noteq> JStr ''state''"
  then have step: "on_data coerce max_args (w, s) (Some message) =
      (console_warn ''Unknown message type received:''
         (console_log ''Received message from peer:'' w), s)"
    by (simp add: unknown_kind_accepted)
  show "snd (on_data coerce max_args (w, s) (Some message)) = s"
    by (simp add: step)
  show "currentBalance (fst (on_data coerce max_args (w, s) (Some message))) = currentBalance w"
    by (simp add: step console_warn_def console_log_def)
  show "transactionHistory (fst (on_data coerce max_args (w, s) (Some message))) = transactionHistory w"
    by (simp add: step console_warn_def console_log_def)
  show "console (fst (on_data coerce max_args (w, s) (Some message))) =
        console w @ [(LOG, ''Received message from peer:''),
                     (WARN, ''Unknown message type received:'')]"
    by (simp add: step console_warn_def console_log_def)
qed

theorem unknown_or_missing_kind_is_no_error_witness:
  "\<forall>coerce max_args.
     snd (on_data coerce max_args (ex_world, ex_session)
            (Some (JObj [(''data'', ex_record ''c'')]))) = ex_session \<and>
     currentBalance (fst (on_data coerce max_args (ex_world, ex_session)
            (Some (JObj [(''data'', ex_record ''c'')])))) = JNum (Fin 0) \<and>
     transactionHistory (fst (on_data coerce max_args (ex_world, ex_session)
            (Some (JObj [(''data'', ex_record ''c'')])))) = [] \<and>
     console (fst (on_data coerce max_args (ex_world, ex_session)
            (Some (JObj [(''data'', ex_record ''c'')])))) =
       [(LOG, ''Received message from peer:''), (WARN, ''Unknown message type received:'')]"
proof (intro allI)
  fix coerce max_args
  note missing = unknown_or_missing_kind_is_no_error
    [where coerce = coerce and max_args = max_args and w = ex_world and s = ex_session
       and message = "JObj [(''data'', ex_record ''c'')]" and ty = JUndefined]
  show "snd (on_data coerce max_args (ex_world, ex_session)
               (Some (JObj [(''data'', ex_record ''c'')]))) = ex_session \<and>
        currentBalance (fst (on_data coerce max_args (ex_world, ex_session)
               (Some (JObj [(''data'', ex_record ''c'')])))) = JNum (Fin 0) \<and>
        transactionHistory (fst (on_data coerce max_args (ex_world, ex_session)
               (Some (JObj [(''data'', ex_record ''c'')])))) = [] \<and>
        console (fst (on_data coerce max_args (ex_world, ex_session)
               (Some (JObj [(''data'', ex_record ''c'')])))) =
          [(LOG, ''Received message from peer:''), (WARN, ''Unknown message type received:'')]"
    using missing by (simp add: ex_world_def)
qed

text \<open>
  The claim as first stated fails on a message with no \<open>type\<close>, here \<open>{}\<close>: it is not a
  decoding failure, the counter of a fresh session stays at zero and the warning for an
  unknown type is logged.
\<close>

theorem missing_kind_counterexample:
  "\<forall>coerce max_args.
     count_after coerce max_args ex_world ex_session (Some (JObj [])) = 0 \<and>
     console (fst (on_data coerce max_args (ex_world, ex_session) (Some (JObj [])))) =
       [(LOG, ''Received message from peer:''), (WARN, ''Unknown message type received:'')]"
  by (simp add: handler_defs example_defs)

subsection \<open>The balance over a sequence of state messages\<close>

lemma num_le_refl: "x \<noteq> NaN \<Longrightarrow> num_le x x"
  by (cases x) (simp_all add: num_le_def)

lemma num_le_trans: "num_le x y \<Longrightarrow> num_le y z \<Longrightarrow> num_le x z"
  by (cases x; cases y; cases z) (simp_all add: num_le_def)

lemma num_le_total: "x \<noteq> NaN \<Longrightarrow> y \<noteq> NaN \<Longrightarrow> num_gt y x \<or> num_le y x"
  by (cases x; cases y) (auto simp: num_le_def num_gt_def)

lemma num_gt_le: "x \<noteq> NaN \<Longrightarrow> y \<noteq> NaN \<Longrightarrow> num_gt y x \<Longrightarrow> num_le x y"
  by (cases x; cases y) (auto simp: num_le_def num_gt_def)

lemma state_balanceD:
  assumes "state_balance data = Some b"
  obtains message d where "data = Some message"
    and "get_prop message ''type'' = Inr (JStr ''state'')"
    and "get_prop message ''data'' = Inr d"
    and "get_prop d ''balance'' = Inr (JNum b)"
  using assms
  by (auto simp: state_balance_def split: option.splits if_splits sum.splits jsval.splits)

lemma state_balance_step:
  assumes "state_balance data = Some b" and "currentBalance w = JNum c"
  shows "currentBalance (fst (on_data coerce max_args (w, s) data)) = JNum (if num_gt b c then b else c)"
proof -
  from assms(1) obtain message d where m: "data = Some message"
      "get_prop message ''type'' = Inr (JStr ''state'')"
      "get_prop message ''data'' = Inr d" "get_prop d ''balance'' = Inr (JNum b)"
    by (rule state_balanceD)
  show ?thesis
  proof (cases "num_gt b c")
    case False
    with m assms(2) show ?thesis by (simp add: handler_defs)
  next
    case True
    with m assms(2) show ?thesis
      by (cases "get_prop d ''transactions''"; cases "spread max_args (projr (get_prop d ''transactions''))")
         (simp_all add: handler_defs)
  qed
qed

lemma run_snoc:
  "foldl (on_data coerce max_args) ws (chunks @ [data]) = on_data coerce max_args (foldl (on_data coerce max_args) ws chunks) data"
  by simp

lemma run_balance:
  assumes "map state_balance chunks = map Some bs" and "currentBalance w = JNum c"
  shows "currentBalance (fst (foldl (on_data coerce max_args) (w, s) chunks)) =
           JNum (foldl (\<lambda>a b. if num_gt b a then b else a) c bs)"
  using assms
proof (induction chunks arbitrary: w s c bs)
  case Nil
  then show ?case by simp
next
  case (Cons data chunks)
  from Cons.prems(1) obtain b bs' where bs: "bs = b # bs'" and b: "state_balance data = Some b"
      and rest: "map state_balance chunks = map Some bs'"
    by (cases bs) auto
  obtain w' s' where step: "on_data coerce max_args (w, s) data = (w', s')"
    by (cases "on_data coerce max_args (w, s) data")
  have "currentBalance w' = JNum (if num_gt b c then b else c)"
    using state_balance_step [OF b Cons.prems(2), of coerce max_args s] by (simp add: step)
  from Cons.IH [OF rest this, of s'] show ?case
    by (simp add: step bs)
qed

lemma greatest_mem:
  "foldl (\<lambda>a b. if num_gt b a then b else a) c bs \<in> set (c # bs)"
  by (induction bs arbitrary: c) auto

lemma greatest_above_start:
  "NaN \<notin> set (c # bs) \<Longrightarrow> num_le c (foldl (\<lambda>a b. if num_gt b a then b else a) c bs)"
proof (induction bs arbitrary: c)
  case Nil
  then show ?case by (simp add: num_le_refl)
next
  case (Cons b bs)
  show ?case
  proof (cases "num_gt b c")
    case True
    have "c \<noteq> NaN" and "b \<noteq> NaN" using Cons.prems by auto
    then have "num_le c b" using True by (rule num_gt_le)
    moreover have "num_le b (foldl (\<lambda>a b. if num_gt b a then b else a) b bs)"
      using Cons.IH [of b] Cons.prems by simp
    ultimately show ?thesis using True by (simp add: num_le_trans [of c b])
  next
    case False
    then show ?thesis using Cons.IH [of c] Cons.prems by simp
  qed
qed

lemma greatest_above_all:
  "NaN \<notin> set (c # bs) \<Longrightarrow> x \<in> set (c # bs) \<Longrightarrow>
   num_le x (foldl (\<lambda>a b. if num_gt b a then b else a) c bs)"
proof (induction bs arbitrary: c)
  case Nil
  then show ?case by (simp add: num_le_refl)
next
  case (Cons b bs)
  let ?c' = "if num_gt b c then b else c"
  have c': "NaN \<notin> set (?c' # bs)" using Cons.prems(1) by auto
  have cb: "c \<noteq> NaN" "b \<noteq> NaN" using Cons.prems(1) by auto
  have up: "num_le c ?c'" "num_le b ?c'"
    using num_le_total [OF cb] num_gt_le [OF cb] num_le_refl [OF cb(1)] num_le_refl [OF cb(2)]
    by auto
  have top: "num_le ?c' (foldl (\<lambda>a b. if num_gt b a then b else a) ?c' bs)"
    using greatest_above_start [OF c'] .
  consider "x = c" | "x = b" | "x \<in> set bs" using Cons.prems(2) by auto
  then show ?case
  proof cases
    case 1
    then show ?thesis using num_le_trans [OF up(1) top] by simp
  next
    case 2
    then show ?thesis using num_le_trans [OF up(2) top] by simp
  next
    case 3
    then show ?thesis using Cons.IH [OF c'] by simp
  qed
qed

text \<open>
  C2. From a local balance that is a number, after any finite sequence of \<open>state\<close> messages
  with numbers for balances, the balance is the maximum of the initial balance and the
  balances of the messages: it is one of them and none of them is above it. And no step of
  the sequence lowers it.
\<close>

theorem balance_is_maximum:
  assumes "map state_balance chunks = map Some bs"
    and "currentBalance w = JNum c"
    and "NaN \<notin> set (c # bs)"
  shows "(\<exists>m. currentBalance (fst (foldl (on_data coerce max_args) (w, s) chunks)) = JNum m \<and>
              m \<in> set (c # bs) \<and> (\<forall>x \<in> set (c # bs). num_le x m)) \<and>
         (\<forall>n < length chunks. \<exists>x y.
              currentBalance (fst (foldl (on_data coerce max_args) (w, s) (take n chunks))) = JNum x \<and>
              currentBalance (fst (foldl (on_data coerce max_args) (w, s) (take (Suc n) chunks))) = JNum y \<and>
              num_le x y)"
proof (intro conjI allI impI)
  let ?m = "foldl (\<lambda>a b. if num_gt b a then b else a) c bs"
  have "currentBalance (fst (foldl (on_data coerce max_args) (w, s) chunks)) = JNum ?m"
    using assms(1,2) by (rule run_balance)
  moreover have "?m \<in> set (c # bs)" by (rule greatest_mem)
  moreover have "\<forall>x \<in> set (c # bs). num_le x ?m"
    using greatest_above_all [OF assms(3)] by blast
  ultimately show "\<exists>m. currentBalance (fst (foldl (on_data coerce max_args) (w, s) chunks)) = JNum m \<and>
      m \<in> set (c # bs) \<and> (\<forall>x \<in> set (c # bs). num_le x m)"
    by blast
next
  fix n assume n: "n < length chunks"
  have len: "length chunks = length bs"
    using assms(1) by (metis length_map)
  let ?x = "foldl (\<lambda>a b. if num_gt b a then b else a) c (take n bs)"
  let ?b = "bs ! n"
  let ?y = "if num_gt ?b ?x then ?b else ?x"
  have pre: "map state_balance (take n chunks) = map Some (take n bs)"
    using assms(1) by (simp add: take_map [symmetric])
  obtain w' s' where run: "foldl (on_data coerce max_args) (w, s) (take n chunks) = (w', s')"
    by (cases "foldl (on_data coerce max_args) (w, s) (take n chunks)")
  have x: "currentBalance w' = JNum ?x"
    using run_balance [OF pre assms(2), of coerce max_args s] by (simp add: run)
  have b: "state_balance (chunks ! n) = Some ?b"
    using assms(1) n len by (metis nth_map)
  have y: "currentBalance (fst (foldl (on_data coerce max_args) (w, s) (take (Suc n) chunks))) = JNum ?y"
    using state_balance_step [OF b x, of coerce max_args s'] n
    by (simp add: take_Suc_conv_app_nth run)
  have "?x \<in> set (c # take n bs)" by (rule greatest_mem)
  then have "?x \<in> set (c # bs)" by (auto dest: in_set_takeD)
  then have xn: "?x \<noteq> NaN" using assms(3) by metis
  have bn: "?b \<noteq> NaN" using assms(3) n len by (metis nth_mem list.set_intros(2))
  have "num_le ?x ?y"
    using num_gt_le [OF xn bn] num_le_refl [OF xn] by simp
  with x y show "\<exists>x y.
      currentBalance (fst (foldl (on_data coerce max_args) (w, s) (take n chunks))) = JNum x \<and>
      currentBalance (fst (foldl (on_data coerce max_args) (w, s) (take (Suc n) chunks))) = JNum y \<and>
      num_le x y"
    by (simp add: run)
qed

theorem balance_is_maximum_witness:
  "\<forall>coerce max_args.
     currentBalance (fst (foldl (on_data coerce max_args) (ex_world, ex_session)
        [Some (ex_state (Fin (1 / 2)) (JArr [ex_record ''a''])),
         Some (ex_state (Fin (3 / 10)) (JArr [ex_record ''b'']))]))
       = JNum (Fin (1 / 2))"
proof (intro allI)
  fix coerce max_args
  let ?chunks = "[Some (ex_state (Fin (1 / 2)) (JArr [ex_record ''a''])),
                  Some (ex_state (Fin (3 / 10)) (JArr [ex_record ''b'']))]"
  have carried: "map state_balance ?chunks = map Some [Fin (1 / 2), Fin (3 / 10)]"
    by (simp add: state_balance_def ex_state_def)
  have start: "currentBalance ex_world = JNum (Fin 0)"
    by (simp add: ex_world_def)
  have numbers: "NaN \<notin> set [Fin 0, Fin (1 / 2), Fin (3 / 10)]"
    by simp
  from balance_is_maximum [OF carried start numbers, of coerce max_args ex_session]
  obtain m where m: "currentBalance (fst (foldl (on_data coerce max_args) (ex_world, ex_session) ?chunks))
        = JNum m"
    and mem: "m \<in> set [Fin 0, Fin (1 / 2), Fin (3 / 10)]"
    and top: "\<forall>x \<in> set [Fin 0, Fin (1 / 2), Fin (3 / 10)]. num_le x m"
    by blast
  from top have "num_le (Fin (1 / 2)) m" by simp
  with mem have "m = Fin (1 / 2)" by (auto simp: num_le_def)
  with m show "currentBalance (fst (foldl (on_data coerce max_args) (ex_world, ex_session) ?chunks))
      = JNum (Fin (1 / 2))"
    by simp
qed

subsection \<open>The session under malformed messages\<close>











section \<open>Properties of the retry\<close>

lemma retry_loop_succeeds:
  assumes "\<forall>j < m. isl (fn (calls st + 1 + j))"
    and "fn (calls st + 1 + m) = Inr v"
    and "attempt + m \<le> retries"
  shows "retry_loop fn retries attempt delay st =
           (Returned v,
            st\<lparr>calls := calls st + 1 + m,
               warned := warned st @ map (\<lambda>i. attempt + i) [0..<m],
               slept := slept st @ map (\<lambda>i. delay * 2 ^ i) [0..<m]\<rparr>)"
  using assms
proof (induction m arbitrary: attempt delay st)
  case 0
  then show ?case by simp
next
  case (Suc m)
  from Suc.prems(1) have "isl (fn (calls st + 1))"
    by (metis add.right_neutral zero_less_Suc)
  then obtain err where err: "fn (calls st + 1) = Inl err"
    by (cases "fn (calls st + 1)") simp_all
  let ?st = "st\<lparr>calls := calls st + 1, warned := warned st @ [attempt],
                 slept := slept st @ [delay]\<rparr>"
  have fails: "\<forall>j < m. isl (fn (calls ?st + 1 + j))"
  proof (intro allI impI)
    fix j assume "j < m"
    then have "Suc j < Suc m" by simp
    with Suc.prems(1) have "isl (fn (calls st + 1 + Suc j))" by blast
    then show "isl (fn (calls ?st + 1 + j))" by (simp add: add.commute add.left_commute)
  qed
  have wins: "fn (calls ?st + 1 + m) = Inr v"
    using Suc.prems(2) by (simp add: add.commute add.left_commute)
  have room: "attempt + 1 + m \<le> retries"
    using Suc.prems(3) by simp
  have unfold: "retry_loop fn retries attempt delay st =
      retry_loop fn retries (attempt + 1) (delay * 2) ?st"
    using Suc.prems(3) err by (subst retry_loop.simps) simp
  have shift1: "map (\<lambda>i. attempt + i) [0..<Suc m] = attempt # map (\<lambda>i. attempt + 1 + i) [0..<m]"
    by (simp add: upt_conv_Cons map_Suc_upt [symmetric] del: upt_Suc)
  have shift2: "map (\<lambda>i. delay * 2 ^ i) [0..<Suc m] = delay # map (\<lambda>i. delay * 2 * 2 ^ i) [0..<m]"
    by (simp add: upt_conv_Cons map_Suc_upt [symmetric] del: upt_Suc)
  show ?case
    unfolding unfold Suc.IH [OF fails wins room] shift1 shift2
    by simp
qed

lemma retry_loop_exhausted:
  assumes "\<forall>j \<le> m. isl (fn (calls st + 1 + j))"
    and "attempt + m = retries"
  shows "retry_loop fn retries attempt delay st =
           (Threw (projl (fn (calls st + 1 + m))),
            st\<lparr>calls := calls st + 1 + m,
               warned := warned st @ map (\<lambda>i. attempt + i) [0..<m],
               slept := slept st @ map (\<lambda>i. delay * 2 ^ i) [0..<m]\<rparr>)"
  using assms
proof (induction m arbitrary: attempt delay st)
  case 0
  then have "isl (fn (calls st + 1))" by simp
  then obtain err where err: "fn (calls st + 1) = Inl err"
    by (cases "fn (calls st + 1)") simp_all
  with "0.prems"(2) show ?case by (subst retry_loop.simps) simp
next
  case (Suc m)
  from Suc.prems(1) have "isl (fn (calls st + 1 + 0))" by blast
  then obtain err where err: "fn (calls st + 1) = Inl err"
    by (cases "fn (calls st + 1)") simp_all
  let ?st = "st\<lparr>calls := calls st + 1, warned := warned st @ [attempt],
                 slept := slept st @ [delay]\<rparr>"
  have fails: "\<forall>j \<le> m. isl (fn (calls ?st + 1 + j))"
  proof (intro allI impI)
    fix j assume "j \<le> m"
    then have "Suc j \<le> Suc m" by simp
    with Suc.prems(1) have "isl (fn (calls st + 1 + Suc j))" by blast
    then show "isl (fn (calls ?st + 1 + j))" by (simp add: add.commute add.left_commute)
  qed
  have room: "attempt + 1 + m = retries"
    using Suc.prems(2) by simp
  have unfold: "retry_loop fn retries attempt delay st =
      retry_loop fn retries (attempt + 1) (delay * 2) ?st"
    using Suc.prems(2) err by (subst retry_loop.simps) simp
  have shift1: "map (\<lambda>i. attempt + i) [0..<Suc m] = attempt # map (\<lambda>i. attempt + 1 + i) [0..<m]"
    by (simp add: upt_conv_Cons map_Suc_upt [symmetric] del: upt_Suc)
  have shift2: "map (\<lambda>i. delay * 2 ^ i) [0..<Suc m] = delay # map (\<lambda>i. delay * 2 * 2 ^ i) [0..<m]"
    by (simp add: upt_conv_Cons map_Suc_upt [symmetric] del: upt_Suc)
  show ?case
    unfolding unfold Suc.IH [OF fails room] shift1 shift2
    by (simp add: add.commute add.left_commute)
qed

lemma retry_loop_calls_bounded:
  "attempt \<le> retries + 1 \<Longrightarrow>
   calls (snd (retry_loop fn retries attempt delay st)) \<le> calls st + (retries + 1 - attempt)"
proof (induction fn retries attempt delay st rule: retry_loop.induct)
  case (1 fn retries attempt delay st)
  show ?case
  proof (cases "attempt \<le> retries")
    case False
    then show ?thesis by (subst retry_loop.simps) simp
  next
    case True
    show ?thesis
    proof (cases "fn (calls st + 1)")
      case (Inr v)
      with True show ?thesis by (subst retry_loop.simps) simp
    next
      case (Inl err)
      show ?thesis
      proof (cases "attempt = retries")
        case True
        with Inl show ?thesis by (subst retry_loop.simps) simp
      next
        case False
        with True Inl "1.IH" [OF True Inl False] show ?thesis
          by (subst retry_loop.simps) simp
      qed
    qed
  qed
qed

text \<open>
  C8. With the default parameters the function is called at most 5 times. If the call
  number \<open>k\<close>, at most 5, is the first to succeed, its value is returned after exactly \<open>k\<close>
  calls (a function that fails twice and then succeeds is done at the third). If the
  five calls fail, the error of the fifth is thrown to the caller. The wait after the
  failed call number \<open>i\<close> is \<open>500 * 2 ^ (i - 1)\<close> milliseconds: 500, 1000, 2000, 4000.
\<close>

theorem retry_default_attempts:
  "calls (snd (retryWithBackoff_default fn)) \<le> 5 \<and>
   (1 \<le> k \<and> k \<le> 5 \<and> (\<forall>j. 1 \<le> j \<and> j < k \<longrightarrow> isl (fn j)) \<and> fn k = Inr v \<longrightarrow>
      fst (retryWithBackoff_default fn) = Returned v \<and>
      calls (snd (retryWithBackoff_default fn)) = k \<and>
      slept (snd (retryWithBackoff_default fn)) = map (\<lambda>i. 500 * 2 ^ (i - 1)) [1..<k]) \<and>
   ((\<forall>j. 1 \<le> j \<and> j \<le> 5 \<longrightarrow> isl (fn j)) \<longrightarrow>
      fst (retryWithBackoff_default fn) = Threw (projl (fn 5)) \<and>
      calls (snd (retryWithBackoff_default fn)) = 5 \<and>
      slept (snd (retryWithBackoff_default fn)) = [500, 1000, 2000, 4000])"
proof (intro conjI impI)
  show "calls (snd (retryWithBackoff_default fn)) \<le> 5"
    using retry_loop_calls_bounded [of 1 5 fn 500 "\<lparr>calls = 0, warned = [], slept = []\<rparr>"]
    by (simp add: retryWithBackoff_default_def retryWithBackoff_def MAX_RETRIES_def)
next
  assume a: "1 \<le> k \<and> k \<le> 5 \<and> (\<forall>j. 1 \<le> j \<and> j < k \<longrightarrow> isl (fn j)) \<and> fn k = Inr v"
  let ?st = "\<lparr>calls = 0, warned = [], slept = []\<rparr>"
  obtain m where k: "k = Suc m" using a by (cases k) auto
  have fails: "\<forall>j < m. isl (fn (calls ?st + 1 + j))"
    using a k by simp
  have wins: "fn (calls ?st + 1 + m) = Inr v"
    using a k by simp
  have room: "1 + m \<le> 5"
    using a k by simp
  have delays: "map (\<lambda>i. 500 * 2 ^ (i - 1)) [1..<k] = map (\<lambda>i. 500 * 2 ^ i) [0..<m]"
    unfolding k using map_Suc_upt [of 0 m] by (simp add: map_Suc_upt [symmetric] del: upt_Suc)
  have run: "retryWithBackoff_default fn =
      (Returned v, \<lparr>calls = k, warned = map (\<lambda>i. 1 + i) [0..<m],
                     slept = map (\<lambda>i. 500 * 2 ^ i) [0..<m]\<rparr>)"
    using retry_loop_succeeds [OF fails wins room, of 500]
    by (simp add: retryWithBackoff_default_def retryWithBackoff_def MAX_RETRIES_def k)
  show "fst (retryWithBackoff_default fn) = Returned v"
    by (simp add: run)
  show "calls (snd (retryWithBackoff_default fn)) = k"
    by (simp add: run)
  show "slept (snd (retryWithBackoff_default fn)) = map (\<lambda>i. 500 * 2 ^ (i - 1)) [1..<k]"
    by (simp only: run delays snd_conv retry_state.select_convs)
next
  assume a: "\<forall>j. 1 \<le> j \<and> j \<le> 5 \<longrightarrow> isl (fn j)"
  let ?st = "\<lparr>calls = 0, warned = [], slept = []\<rparr>"
  have fails: "\<forall>j \<le> 4. isl (fn (calls ?st + 1 + j))"
    using a by simp
  have room: "1 + 4 = (5 :: nat)"
    by simp
  have four: "[0..<4] = [0, 1, 2, 3 :: nat]"
    by (simp add: upt_rec)
  have run: "retryWithBackoff_default fn =
      (Threw (projl (fn 5)), \<lparr>calls = 5, warned = [1, 2, 3, 4],
                                slept = [500, 1000, 2000, 4000]\<rparr>)"
    using retry_loop_exhausted [OF fails room, of 500]
    by (simp add: retryWithBackoff_default_def retryWithBackoff_def MAX_RETRIES_def four)
  show "fst (retryWithBackoff_default fn) = Threw (projl (fn 5))"
    by (simp add: run)
  show "calls (snd (retryWithBackoff_default fn)) = 5"
    by (simp add: run)
  show "slept (snd (retryWithBackoff_default fn)) = [500, 1000, 2000, 4000]"
    by (simp add: run)
qed

theorem retry_default_attempts_witness:
  "fst (retryWithBackoff_default (\<lambda>k. if k < 3 then Inl ''unreachable'' else Inr ''details''))
     = Returned ''details'' \<and>
   calls (snd (retryWithBackoff_default
     (\<lambda>k. if k < 3 then Inl ''unreachable'' else Inr ''details''))) = 3 \<and>
   slept (snd (retryWithBackoff_default
     (\<lambda>k. if k < 3 then Inl ''unreachable'' else Inr ''details''))) = [500, 1000] \<and>
   fst (retryWithBackoff_default (\<lambda>k. Inl k :: nat + string)) = Threw 5 \<and>
   calls (snd (retryWithBackoff_default (\<lambda>k. Inl k :: nat + string))) = 5 \<and>
   slept (snd (retryWithBackoff_default (\<lambda>k. Inl k :: nat + string))) = [500, 1000, 2000, 4000]"
proof -
  let ?fn = "\<lambda>k :: nat. if k < 3 then Inl ''unreachable'' else Inr ''details'' :: string + string"
  let ?bad = "\<lambda>k :: nat. Inl k :: nat + string"
  have three: "map (\<lambda>i. 500 * 2 ^ (i - Suc 0)) [Suc 0..<3] = [500, 1000 :: nat]"
    by code_simp
  have "1 \<le> (3 :: nat) \<and> (3 :: nat) \<le> 5 \<and> (\<forall>j. 1 \<le> j \<and> j < 3 \<longrightarrow> isl (?fn j)) \<and>
        ?fn 3 = Inr ''details''"
    by simp
  with retry_default_attempts [of ?fn 3 "''details''"]
  have good: "fst (retryWithBackoff_default ?fn) = Returned ''details'' \<and>
      calls (snd (retryWithBackoff_default ?fn)) = 3 \<and>
      slept (snd (retryWithBackoff_default ?fn)) = [500, 1000]"
    by (simp add: three)
  have "\<forall>j. 1 \<le> j \<and> j \<le> 5 \<longrightarrow> isl (?bad j)"
    by simp
  with retry_default_attempts [of ?bad 1 "''x''"]
  have bad: "fst (retryWithBackoff_default ?bad) = Threw 5 \<and>
      calls (snd (retryWithBackoff_default ?bad)) = 5 \<and>
      slept (snd (retryWithBackoff_default ?bad)) = [500, 1000, 2000, 4000]"
    by simp
  from good bad show ?thesis
    by simp
qed

section \<open>Properties of the wallet operations\<close>


lemma validateAmount_accepts:
  "js_to_number convert amount = Inr n \<Longrightarrow> num_gt n (Fin 0) \<Longrightarrow>
   validateAmount convert amount = Inr ()"
  by (cases n) (simp_all add: validateAmount_def num_gt_def num_le_def)



lemma sendBitcoin_valid_issues:
  assumes "walletName = JStr name" and "trim name \<noteq> []"
    and "js_to_number convert amount = Inr n" and "num_gt n (Fin 0)"
    and "\<not> to_string_throws amount" and "\<not> to_string_throws recipientAddress"
  shows "issued (snd (snd (sendBitcoin convert node (con, cl) walletName recipientAddress amount))) =
           issued cl @ [(''sendtoaddress'', [recipientAddress, amount])]"
  using assms validateAmount_accepts [OF assms(3,4)]
  by (cases "node ''sendtoaddress'' [recipientAddress, amount]")
     (simp_all add: sendBitcoin_def sendBitcoin_try_def validateWalletName_def client_command_def)




section \<open>Properties of the broadcast\<close>

lemma forEach_write_all:
  "\<forall>c \<in> set conns. \<not> write_throws c \<Longrightarrow>
   forEach_write conns v = (None, map (\<lambda>c. c\<lparr>written := written c @ [v]\<rparr>) conns)"
  by (induction conns) (simp_all add: conn_write_def)

lemma forEach_write_aborts:
  "\<forall>c \<in> set good. \<not> write_throws c \<Longrightarrow> write_throws bad \<Longrightarrow>
   forEach_write (good @ bad # rest) v =
     (Some WriteError, map (\<lambda>c. c\<lparr>written := written c @ [v]\<rparr>) good @ bad # rest)"
  by (induction good) (simp_all add: conn_write_def)

text \<open>
  C4, as amended. The broadcast writes the \<open>transaction\<close> message to the connections in
  order, once each and with no retry. When no write fails, every connection has received
  it. When the write to a connection throws, the connections before it have received the
  message, and the loop stops there: that connection and all the connections after it
  receive nothing, the error goes to the \<open>catch\<close> of the main flow, which logs it once,
  and the rest of the flow (reading the balance again) is skipped.
\<close>

theorem broadcast_stops_at_failed_write:
  "((\<forall>c \<in> set conns. \<not> write_throws c) \<longrightarrow>
      forEach_write conns v = (None, map (\<lambda>c. c\<lparr>written := written c @ [v]\<rparr>) conns)) \<and>
   ((\<forall>c \<in> set good. \<not> write_throws c) \<and> write_throws bad \<longrightarrow>
      forEach_write (good @ bad # rest) v =
        (Some WriteError, map (\<lambda>c. c\<lparr>written := written c @ [v]\<rparr>) good @ bad # rest) \<and>
      snd (snd (propagate_transaction node w cl (good @ bad # rest) recipientAddress amount txId)) =
        map (\<lambda>c. c\<lparr>written := written c @
                     [transaction_message w recipientAddress amount txId]\<rparr>) good @ bad # rest \<and>
      fst (snd (propagate_transaction node w cl (good @ bad # rest) recipientAddress amount txId)) =
        cl \<and>
      console (fst (propagate_transaction node w cl (good @ bad # rest) recipientAddress amount txId)) =
        console w @ [(LOG, ''Broadcasting transaction to peers:''),
                     (ERROR, ''Error in main flow:''), (ERROR, ''error.stack'')])"
proof (intro conjI impI)
  assume "\<forall>c \<in> set conns. \<not> write_throws c"
  then show "forEach_write conns v = (None, map (\<lambda>c. c\<lparr>written := written c @ [v]\<rparr>) conns)"
    by (rule forEach_write_all)
next
  assume a: "(\<forall>c \<in> set good. \<not> write_throws c) \<and> write_throws bad"
  then show "forEach_write (good @ bad # rest) v =
      (Some WriteError, map (\<lambda>c. c\<lparr>written := written c @ [v]\<rparr>) good @ bad # rest)"
    by (simp add: forEach_write_aborts)
  let ?v = "transaction_message w recipientAddress amount txId"
  from a have stop: "forEach_write (good @ bad # rest) ?v =
      (Some WriteError, map (\<lambda>c. c\<lparr>written := written c @ [?v]\<rparr>) good @ bad # rest)"
    by (simp add: forEach_write_aborts)
  show "snd (snd (propagate_transaction node w cl (good @ bad # rest) recipientAddress amount txId)) =
      map (\<lambda>c. c\<lparr>written := written c @ [?v]\<rparr>) good @ bad # rest"
    by (simp add: propagate_transaction_def stop Let_def)
  show "fst (snd (propagate_transaction node w cl (good @ bad # rest) recipientAddress amount txId)) =
      cl"
    by (simp add: propagate_transaction_def stop Let_def)
  show "console (fst (propagate_transaction node w cl (good @ bad # rest) recipientAddress amount txId)) =
      console w @ [(LOG, ''Broadcasting transaction to peers:''),
                   (ERROR, ''Error in main flow:''), (ERROR, ''error.stack'')]"
    by (simp add: propagate_transaction_def stop Let_def console_log_def console_error_def)
qed

theorem broadcast_stops_at_failed_write_witness:
  "forEach_write [ex_conn, ex_conn] (ex_transaction (ex_record ''c'')) =
     (None, [ex_conn\<lparr>written := [ex_transaction (ex_record ''c'')]\<rparr>,
             ex_conn\<lparr>written := [ex_transaction (ex_record ''c'')]\<rparr>]) \<and>
   forEach_write [ex_conn, ex_conn\<lparr>write_throws := True\<rparr>, ex_conn]
       (ex_transaction (ex_record ''c'')) =
     (Some WriteError,
      [ex_conn\<lparr>written := [ex_transaction (ex_record ''c'')]\<rparr>,
       ex_conn\<lparr>write_throws := True\<rparr>, ex_conn])"
proof -
  have fine: "\<forall>c \<in> set [ex_conn, ex_conn]. \<not> write_throws c"
    and before: "\<forall>c \<in> set [ex_conn]. \<not> write_throws c"
    and broken: "write_throws (ex_conn\<lparr>write_throws := True\<rparr>)"
    by (simp_all add: ex_conn_def)
  note all = broadcast_stops_at_failed_write
    [where conns = "[ex_conn, ex_conn]" and v = "ex_transaction (ex_record ''c'')"
       and good = "[ex_conn]" and bad = "ex_conn\<lparr>write_throws := True\<rparr>" and rest = "[ex_conn]"]
  from all fine before broken show ?thesis
    by (simp add: ex_conn_def)
qed

text \<open>
  The claim as first stated fails with three connections of which the second cannot be
  written to: the third connection receives nothing, and the only log of the failure is
  that of the main flow.
\<close>

theorem broadcast_aborted_counterexample:
  "\<forall>node.
     map written (snd (snd (propagate_transaction node ex_world ex_client
        [ex_conn, ex_conn\<lparr>write_throws := True\<rparr>, ex_conn]
        (JStr ''bcrt1qexample'') (Fin (1 / 10)) (JStr ''txid1'')))) =
       [[transaction_message ex_world (JStr ''bcrt1qexample'') (Fin (1 / 10)) (JStr ''txid1'')],
        [], []] \<and>
     console (fst (propagate_transaction node ex_world ex_client
        [ex_conn, ex_conn\<lparr>write_throws := True\<rparr>, ex_conn]
        (JStr ''bcrt1qexample'') (Fin (1 / 10)) (JStr ''txid1''))) =
       [(LOG, ''Broadcasting transaction to peers:''),
        (ERROR, ''Error in main flow:''), (ERROR, ''error.stack'')]"
  by (simp add: propagate_transaction_def conn_write_def console_log_def console_error_def
        ex_conn_def ex_world_def Let_def)

end
